theory Spec2Isabelle
  imports Main "HOL-Library.Word"
begin

section \<open>Firmware update tool: apps/firmware\_update/src/main.c\<close>

text \<open>
  The program is a command-line client of the openPOWERLINK stack library. Its own code
  is \<open>main\<close>, \<open>getOptions\<close>, \<open>invalidateImage\<close>, \<open>updateImage\<close> and
  \<open>writeImageToKernel\<close>; everything else (\<open>oplk_*\<close>, \<open>system_*\<close>, \<open>getopt\<close>,
  the C library) is called, not implemented. The embedding keeps the five functions as
  they are written and makes the outside world explicit:
  \<^item> every call that leaves the program is logged as an \<open>event\<close>, with its arguments and
    its result, in the order of the calls;
  \<^item> what the outside world answers is given by an environment \<open>env\<close>: each answer is a
    function of the events logged so far (the history \<open>h\<close>), so the library, the
    allocator and the file system may answer differently at every call;
  \<^item> each function of the program returns its C result together with the events it
    produced;
  \<^item> a call of \<open>free\<close> on a pointer that \<open>malloc\<close> did not return is undefined
    behaviour: the process is killed in it, and the run ends there (\<open>Crashes\<close>)
    instead of returning.
  Console output is not logged, except the usage text of \<open>getOptions\<close>; the progress
  percentage of \<open>writeImageToKernel\<close> is computed in \<open>float\<close> for printing only and
  is left out.
\<close>

subsection \<open>Types\<close>

text \<open>
  \<open>UINT\<close> is \<open>unsigned int\<close> and \<open>int\<close> is 32 bits wide; \<open>size_t\<close> and
  \<open>long\<close> are taken 64 bits wide (an LP64 platform).
\<close>

type_synonym UINT8 = "8 word"
type_synonym UINT = "32 word"
type_synonym UINT32 = "32 word"
type_synonym size_t = "64 word"

text \<open>A pointer is an address; \<open>NULL\<close> is address 0.\<close>

type_synonym ptr = nat

definition NULL :: ptr where
  "NULL = 0"

text \<open>
  How a call ends: it returns its result, or the process is killed inside it. (A call that
  never ends is the third possibility; functions that contain the chunk loop have an
  \<open>option\<close> result, \<open>None\<close> for it.)
\<close>

datatype 'a ending = Returns 'a | Crashes

text \<open>
  Modelled from the spec: the enumeration \<open>tOplkError\<close> is declared in the library's
  headers (oplk/oplk.h), not in main.c. The program names two of its members,
  \<open>kErrorOk\<close> and \<open>kErrorNoResource\<close>; every other member is \<open>kErrorOther\<close> with
  its code.
\<close>

datatype tOplkError = kErrorOk | kErrorNoResource | kErrorOther nat

text \<open>
  Modelled from the spec: \<open>tOplkApiFileChunkDesc\<close> is declared in oplk/oplk.h as well;
  the fields are the four that \<open>writeImageToKernel\<close> writes ("an offset, a length, and
  first/last flags"). The field \<open>length\<close> is named \<open>length_d\<close> here.
\<close>

record tOplkApiFileChunkDesc =
  fFirst :: bool
  fLast :: bool
  offset :: UINT32
  length_d :: UINT32

text \<open>\<open>tOptions\<close> (main.c:82-89). \<open>firmwareFile\<close> is the array \<open>char[256]\<close>.\<close>

record tOptions =
  firmwareFile :: string
  fUpdateImage :: bool
  fInvalidateUpdateImage :: bool
  fFactoryReset :: bool
  fUpdateReset :: bool

subsection \<open>The outside world\<close>

datatype event =
    Ev_usage
  | Ev_system_init int
  | Ev_system_exit
  | Ev_oplk_initialize tOplkError
  | Ev_oplk_getStackInfo tOplkError
  | Ev_oplk_exit
  | Ev_oplk_serviceExecFirmwareReconfig bool tOplkError
  | Ev_oplk_serviceWriteFileChunk tOplkApiFileChunkDesc "UINT8 list" tOplkError
  | Ev_malloc size_t ptr
  | Ev_free ptr
  | Ev_fopen string bool
  | Ev_fclose string

text \<open>
  An opened file: \<open>ftell_end\<close> is what \<open>ftell\<close> returns after
  \<open>fseek(pFile, 0, SEEK_END)\<close> (a \<open>long\<close>: the size, or -1 on error), and
  \<open>contents\<close> are the bytes \<open>fread\<close> can deliver from the start of the file.
\<close>

record opened_file =
  ftell_end :: "64 word"
  contents :: "UINT8 list"

text \<open>
  The environment. \<open>malloc\<close> returns \<open>NULL\<close> when it fails, \<open>fopen\<close> returns
  \<open>None\<close> for C's \<open>NULL\<close>. \<open>pImage_indeterminate\<close> is the value that the local
  variable \<open>pImage\<close> of \<open>updateImage\<close> holds before its first assignment: it is
  declared without an initialiser (main.c:322), so the value is whatever the stack holds.
\<close>

record env =
  system_init :: "event list \<Rightarrow> int"
  oplk_initialize :: "event list \<Rightarrow> tOplkError"
  oplk_getStackInfo :: "event list \<Rightarrow> tOplkError"
  oplk_serviceGetFileChunkSize :: "event list \<Rightarrow> size_t"
  oplk_serviceWriteFileChunk ::
    "event list \<Rightarrow> tOplkApiFileChunkDesc \<Rightarrow> UINT8 list \<Rightarrow> tOplkError"
  oplk_serviceExecFirmwareReconfig :: "event list \<Rightarrow> bool \<Rightarrow> tOplkError"
  malloc :: "event list \<Rightarrow> size_t \<Rightarrow> ptr"
  fopen :: "event list \<Rightarrow> string \<Rightarrow> opened_file option"
  pImage_indeterminate :: ptr

subsection \<open>getOptions (main.c:234-282)\<close>

definition NUL :: char where
  "NUL = CHR 0x00"

text \<open>
  \<open>strncpy(dst, src, n)\<close> on an array of \<open>n\<close> characters: the characters of the C
  string \<open>src\<close> up to its terminator, cut at \<open>n\<close>, the rest of the array filled with
  NUL. \<open>c_str\<close> reads an array back as a C string. After an argument of 256 or
  more characters the array holds no NUL and C reads on behind it; \<open>c_str\<close> stops at
  the end of the array (nothing below is about such a name).
\<close>

definition strncpy :: "string \<Rightarrow> nat \<Rightarrow> string" where
  "strncpy src n = take n (takeWhile (\<lambda>c. c \<noteq> NUL) src @ replicate n NUL)"

definition c_str :: "string \<Rightarrow> string" where
  "c_str a = takeWhile (\<lambda>c. c \<noteq> NUL) a"

text \<open>
  \<open>getopt\<close> is not part of the program. The loop
  \<open>while ((opt = getopt(argc_p, argv_p, "d:efu")) != -1)\<close> sees the command line only
  through the results of the successive \<open>getopt\<close> calls, so these are the input: a list
  of pairs (returned character, \<open>optarg\<close> after the call), in command-line order, whose
  end stands for the final -1. What \<open>getopt\<close> does not accept, an option letter that
  is not in the option string or a \<open>-d\<close> without its argument, arrives as a character
  other than d, e, f, u (\<open>getopt\<close> returns \<open>?\<close>) and takes the \<open>default\<close>
  branch.
\<close>

type_synonym getopt_result = "char \<times> string"

fun getOptions_loop :: "getopt_result list \<Rightarrow> tOptions \<Rightarrow> int \<times> tOptions \<times> event list" where
  "getOptions_loop [] pOpts = (0, pOpts, [])"
| "getOptions_loop ((opt, optarg) # rest) pOpts =
     (if opt = CHR ''d'' then
        getOptions_loop rest (pOpts\<lparr>firmwareFile := strncpy optarg 256, fUpdateImage := True\<rparr>)
      else if opt = CHR ''e'' then
        getOptions_loop rest (pOpts\<lparr>fInvalidateUpdateImage := True\<rparr>)
      else if opt = CHR ''f'' then
        getOptions_loop rest (pOpts\<lparr>fFactoryReset := True, fUpdateReset := False\<rparr>)
      else if opt = CHR ''u'' then
        getOptions_loop rest (pOpts\<lparr>fFactoryReset := False, fUpdateReset := True\<rparr>)
      else (- 1, pOpts, [Ev_usage]))"

definition getOptions :: "int \<Rightarrow> getopt_result list \<Rightarrow> tOptions \<Rightarrow> int \<times> tOptions \<times> event list" where
  "getOptions argc_p getopt_results pOpts =
     getOptions_loop getopt_results
       (if argc_p = 1
        then pOpts\<lparr>firmwareFile := strncpy ''image.bin'' 256,
                   fUpdateImage := True, fUpdateReset := True\<rparr>
        else pOpts)"

subsection \<open>writeImageToKernel (main.c:381-441)\<close>

text \<open>
  The \<open>while (length_p)\<close> loop. \<open>pImage_p\<close> is the part of the buffer from the current
  pointer on; \<open>memcpy\<close> copies its first \<open>desc.length\<close> bytes to the chunk buffer,
  which is what the library call receives. The comparison \<open>length_p < chunkSize\<close> is
  between an \<open>unsigned int\<close> and a \<open>size_t\<close>, so between the two values. The result
  is \<open>None\<close> when the loop never ends.
\<close>

partial_function (option) writeImageToKernel_loop ::
  "env \<Rightarrow> event list \<Rightarrow> size_t \<Rightarrow> tOplkError \<Rightarrow> tOplkApiFileChunkDesc \<Rightarrow> UINT8 list \<Rightarrow> UINT
    \<Rightarrow> (tOplkError \<times> event list) option" where
  "writeImageToKernel_loop env h chunkSize ret desc pImage_p length_p =
     (if length_p = 0 then Some (ret, [])
      else
        let desc1 = (if unat length_p < unat chunkSize
                     then desc\<lparr>length_d := length_p, fLast := True\<rparr>
                     else desc\<lparr>length_d := ucast chunkSize\<rparr>);
            pChunk = take (unat (length_d desc1)) pImage_p;
            ret1 = oplk_serviceWriteFileChunk env h desc1 pChunk;
            e = Ev_oplk_serviceWriteFileChunk desc1 pChunk ret1
        in if ret1 \<noteq> kErrorOk then Some (ret1, [e])
           else Option.bind
                  (writeImageToKernel_loop env (h @ [e]) chunkSize ret1
                     (desc1\<lparr>offset := offset desc1 + length_d desc1, fFirst := False\<rparr>)
                     (drop (unat (length_d desc1)) pImage_p)
                     (length_p - length_d desc1))
                  (\<lambda>(r, es). Some (r, e # es)))"

declare writeImageToKernel_loop.simps [code]

definition writeImageToKernel ::
  "env \<Rightarrow> event list \<Rightarrow> UINT8 list \<Rightarrow> UINT \<Rightarrow> (tOplkError \<times> event list) option" where
  "writeImageToKernel env h pImage_p length_p =
     (let chunkSize = oplk_serviceGetFileChunkSize env h in
      if chunkSize = 0 then Some (kErrorNoResource, [])
      else
        let pChunk = malloc env h chunkSize;
            e = Ev_malloc chunkSize pChunk
        in if pChunk = NULL then Some (kErrorNoResource, [e])
           else Option.bind
                  (writeImageToKernel_loop env (h @ [e]) chunkSize kErrorOk
                     \<lparr>fFirst = True, fLast = False, offset = 0, length_d = 0\<rparr>
                     pImage_p length_p)
                  (\<lambda>(ret, es).
                     Some (ret, e # es @ (if pChunk \<noteq> NULL then [Ev_free pChunk] else []))))"

subsection \<open>invalidateImage (main.c:293-303)\<close>

definition FIRMWARE_HEADER_SIZE :: nat where
  "FIRMWARE_HEADER_SIZE = 32"

definition invalidateImage :: "env \<Rightarrow> event list \<Rightarrow> (tOplkError \<times> event list) option" where
  "invalidateImage env h =
     (let aInvalidHeader = replicate FIRMWARE_HEADER_SIZE (0xFF :: UINT8)
      in writeImageToKernel env h aInvalidHeader (of_nat (length aInvalidHeader)))"

subsection \<open>updateImage (main.c:316-367)\<close>

text \<open>
  The block at the label \<open>Exit\<close>: \<open>if (pImage != NULL) free(pImage)\<close>, then
  \<open>fclose(pFile)\<close> (\<open>pFile\<close> is never \<open>NULL\<close> there), then \<open>return ret\<close>.
  \<open>allocated\<close> are the pointers that \<open>malloc\<close> has returned to this call of
  \<open>updateImage\<close>. \<open>free\<close> of one of them releases it; \<open>free\<close> of any other
  pointer is undefined behaviour, the run ends in that call: \<open>fclose\<close> is not
  reached and nothing is returned.
\<close>

definition updateImage_Exit ::
  "ptr list \<Rightarrow> tOplkError \<Rightarrow> ptr \<Rightarrow> string \<Rightarrow> tOplkError ending \<times> event list" where
  "updateImage_Exit allocated ret pImage pszFirmwareFile_p =
     (if pImage \<noteq> NULL
      then if pImage \<in> set allocated
           then (Returns ret, [Ev_free pImage, Ev_fclose pszFirmwareFile_p])
           else (Crashes, [Ev_free pImage])
      else (Returns ret, [Ev_fclose pszFirmwareFile_p]))"

text \<open>
  \<open>fileSize\<close> is an \<open>int\<close>: \<open>ftell\<close>'s \<open>long\<close> cut to 32 bits. As argument of
  \<open>malloc\<close> and \<open>fread\<close>, and in \<open>readSize != fileSize\<close>, it is converted to
  \<open>size_t\<close> with its sign (\<open>scast\<close>); as argument of \<open>writeImageToKernel\<close> it becomes
  an \<open>unsigned int\<close> with the same bits. \<open>fread\<close> delivers at most the bytes asked for.
  On the path of the empty file \<open>pImage\<close> has not been assigned when \<open>Exit\<close> is
  reached, so \<open>Exit\<close> runs on \<open>pImage_indeterminate\<close>, with nothing allocated: if
  that value happens to be \<open>NULL\<close> the test skips \<open>free\<close>, otherwise \<open>free\<close> is
  called on it.
\<close>

definition updateImage ::
  "env \<Rightarrow> event list \<Rightarrow> string \<Rightarrow> (tOplkError ending \<times> event list) option" where
  "updateImage env h pszFirmwareFile_p =
     (case fopen env h pszFirmwareFile_p of
        None \<Rightarrow> Some (Returns kErrorNoResource, [Ev_fopen pszFirmwareFile_p False])
      | Some pFile \<Rightarrow>
          let e1 = [Ev_fopen pszFirmwareFile_p True];
              fileSize = (ucast (ftell_end pFile) :: 32 word)
          in if fileSize = 0
             then (case updateImage_Exit [] kErrorNoResource (pImage_indeterminate env)
                          pszFirmwareFile_p of
                     (out, ex) \<Rightarrow> Some (out, e1 @ ex))
             else
               let pImage = malloc env (h @ e1) (scast fileSize);
                   e2 = e1 @ [Ev_malloc (scast fileSize) pImage]
               in if pImage = NULL
                  then (case updateImage_Exit [] kErrorNoResource pImage pszFirmwareFile_p of
                          (out, ex) \<Rightarrow> Some (out, e2 @ ex))
                  else
                    let image = take (unat (scast fileSize :: size_t)) (contents pFile);
                        readSize = (of_nat (length image) :: size_t)
                    in if readSize \<noteq> scast fileSize
                       then (case updateImage_Exit [pImage] kErrorNoResource pImage
                                    pszFirmwareFile_p of
                               (out, ex) \<Rightarrow> Some (out, e2 @ ex))
                       else Option.bind (writeImageToKernel env (h @ e2) image fileSize)
                              (\<lambda>(ret, e3).
                                 case updateImage_Exit [pImage] ret pImage pszFirmwareFile_p of
                                   (out, ex) \<Rightarrow> Some (out, e2 @ e3 @ ex)))"

subsection \<open>main (main.c:121-210)\<close>

text \<open>
  \<open>memset(&opts, 0, sizeof(tOptions))\<close>.
\<close>

definition opts_zero :: tOptions where
  "opts_zero = \<lparr>firmwareFile = replicate 256 NUL, fUpdateImage = False,
                 fInvalidateUpdateImage = False, fFactoryReset = False, fUpdateReset = False\<rparr>"

text \<open>
  The label \<open>Exit\<close> of \<open>main\<close>: \<open>system_exit(); return 0\<close>; three of the jumps to it
  call \<open>oplk_exit()\<close> first, as the regular end does.
\<close>

definition main_Exit :: "event list" where
  "main_Exit = [Ev_system_exit]"

definition main_oplk_exit_Exit :: "event list" where
  "main_oplk_exit_Exit = Ev_oplk_exit # main_Exit"

text \<open>
  The result of \<open>main\<close>: how it ends and all events of the run. When it returns, it
  returns its exit code; the value of its local \<open>opts\<close> is given with it, to relate the
  events to the parsed options. When the process is killed inside \<open>updateImage\<close>,
  \<open>main\<close> does not return. \<open>updateImage\<close> gets \<open>opts.firmwareFile\<close> and only hands
  it to \<open>fopen\<close> and \<open>printf\<close>; it receives the C string by value here.
\<close>

definition main ::
  "env \<Rightarrow> int \<Rightarrow> getopt_result list \<Rightarrow> ((int \<times> tOptions) ending \<times> event list) option" where
  "main env argc getopt_results =
     (case getOptions argc getopt_results opts_zero of (r, opts, h0) \<Rightarrow>
      if r = - 1 then Some (Returns (- 1, opts), h0)
      else
        let si = system_init env h0; h1 = h0 @ [Ev_system_init si]
        in if si \<noteq> 0 then Some (Returns (0, opts), h1)
        else
        let ret = oplk_initialize env h1; h2 = h1 @ [Ev_oplk_initialize ret]
        in if ret \<noteq> kErrorOk then Some (Returns (0, opts), h2 @ main_Exit)
        else
        let ret = oplk_getStackInfo env h2; h3 = h2 @ [Ev_oplk_getStackInfo ret]
        in if ret \<noteq> kErrorOk then Some (Returns (0, opts), h3 @ main_Exit)
        else
        Option.bind
          (if fInvalidateUpdateImage opts then invalidateImage env h3 else Some (ret, []))
          (\<lambda>(ret, ei).
             let h4 = h3 @ ei
             in if fInvalidateUpdateImage opts \<and> ret \<noteq> kErrorOk
                then Some (Returns (0, opts), h4 @ main_oplk_exit_Exit)
                else
                Option.bind
                  (if fUpdateImage opts
                   then updateImage env h4 (c_str (firmwareFile opts))
                   else Some (Returns ret, []))
                  (\<lambda>(out, eu).
                     let h5 = h4 @ eu
                     in case out of
                          Crashes \<Rightarrow> Some (Crashes, h5)
                        | Returns ret \<Rightarrow>
                        if fUpdateImage opts \<and> ret \<noteq> kErrorOk
                        then Some (Returns (0, opts), h5 @ main_oplk_exit_Exit)
                        else if fFactoryReset opts \<or> fUpdateReset opts
                        then
                          let ret = oplk_serviceExecFirmwareReconfig env h5 (fFactoryReset opts);
                              h6 = h5 @ [Ev_oplk_serviceExecFirmwareReconfig
                                           (fFactoryReset opts) ret]
                          in if ret \<noteq> kErrorOk
                             then Some (Returns (0, opts), h6 @ main_oplk_exit_Exit)
                             else Some (Returns (0, opts), h6 @ main_oplk_exit_Exit)
                        else Some (Returns (0, opts), h5 @ main_oplk_exit_Exit))))"

section \<open>Reading the events of a run\<close>

text \<open>
  The chunk-write calls of an event list, in order: descriptor, bytes of the chunk buffer,
  status returned by the library.
\<close>

type_synonym chunk_call = "tOplkApiFileChunkDesc \<times> UINT8 list \<times> tOplkError"

fun chunk_calls :: "event list \<Rightarrow> chunk_call list" where
  "chunk_calls [] = []"
| "chunk_calls (Ev_oplk_serviceWriteFileChunk d b r # es) = (d, b, r) # chunk_calls es"
| "chunk_calls (e # es) = chunk_calls es"

definition call_event :: "chunk_call \<Rightarrow> event" where
  "call_event c = (case c of (d, b, r) \<Rightarrow> Ev_oplk_serviceWriteFileChunk d b r)"

abbreviation seg_len :: "chunk_call \<Rightarrow> nat" where
  "seg_len c \<equiv> unat (length_d (fst c))"

text \<open>The reconfiguration calls of an event list: argument and status.\<close>

fun reconfig_calls :: "event list \<Rightarrow> (bool \<times> tOplkError) list" where
  "reconfig_calls [] = []"
| "reconfig_calls (Ev_oplk_serviceExecFirmwareReconfig f r # es) = (f, r) # reconfig_calls es"
| "reconfig_calls (e # es) = reconfig_calls es"

text \<open>
  \<open>calls_from C first sticky off rem img cs\<close>: the calls \<open>cs\<close> are what the loop sends
  when it is entered with chunk size \<open>C\<close>, \<open>desc.fFirst = first\<close>,
  \<open>desc.fLast = sticky\<close>, \<open>desc.offset = off\<close>, \<open>rem\<close> bytes still to send and
  \<open>img\<close> at the pointer. \<open>run_ret ret cs ret'\<close>: the statuses of \<open>cs\<close> let the loop
  go from \<open>ret\<close> to the returned \<open>ret'\<close>, a failing call being the last one.
\<close>

fun calls_from ::
  "nat \<Rightarrow> bool \<Rightarrow> bool \<Rightarrow> nat \<Rightarrow> nat \<Rightarrow> UINT8 list \<Rightarrow> chunk_call list \<Rightarrow> bool" where
  "calls_from C first sticky off rem img [] = True"
| "calls_from C first sticky off rem img ((d, b, r) # cs) =
     (0 < rem \<and> unat (length_d d) = min rem C \<and> unat (offset d) = off
      \<and> fFirst d = first \<and> fLast d = (sticky \<or> rem < C)
      \<and> b = take (unat (length_d d)) img
      \<and> calls_from C False (fLast d) (off + unat (length_d d)) (rem - unat (length_d d))
           (drop (unat (length_d d)) img) cs)"

fun run_ret :: "tOplkError \<Rightarrow> chunk_call list \<Rightarrow> tOplkError \<Rightarrow> bool" where
  "run_ret ret [] ret' = (ret' = ret)"
| "run_ret ret ((d, b, r) # cs) ret' =
     (if r \<noteq> kErrorOk then cs = [] \<and> ret' = r else run_ret r cs ret')"

text \<open>
  Resource discipline of an event list, from the buffers \<open>bufs\<close> and the open files
  \<open>files\<close> held at its start: every \<open>free\<close> is given a pointer that \<open>malloc\<close>
  returned and that has not been freed since, every \<open>fclose\<close> closes an open file, and
  at the end nothing is held.
\<close>

fun released :: "ptr list \<Rightarrow> string list \<Rightarrow> event list \<Rightarrow> bool" where
  "released bufs files [] = (bufs = [] \<and> files = [])"
| "released bufs files (Ev_malloc n p # es) =
     released (if p = NULL then bufs else p # bufs) files es"
| "released bufs files (Ev_free p # es) = (p \<in> set bufs \<and> released (remove1 p bufs) files es)"
| "released bufs files (Ev_fopen name ok # es) =
     released bufs (if ok then name # files else files) es"
| "released bufs files (Ev_fclose name # es) =
     (name \<in> set files \<and> released bufs (remove1 name files) es)"
| "released bufs files (e # es) = released bufs files es"

text \<open>
  Of the \<open>getopt\<close> results: whether one takes the \<open>default\<close> case of the
  \<open>switch\<close> (it is none of the four letters), and the last \<open>f\<close> or \<open>u\<close> of the
  command line, if any.
\<close>

definition default_case :: "getopt_result \<Rightarrow> bool" where
  "default_case r =
     (fst r \<noteq> CHR ''d'' \<and> fst r \<noteq> CHR ''e'' \<and> fst r \<noteq> CHR ''f'' \<and> fst r \<noteq> CHR ''u'')"

text \<open>
  What one call of \<open>getopt(argc_p, argv_p, "d:efu")\<close> can find on the command line, and
  what it hands to the loop for it. The option string names d with an argument and e, f,
  u without; it does not begin with a colon, so \<open>getopt\<close> returns \<open>?\<close> both for an
  option letter that is not in the string and for a \<open>-d\<close> that is the last word of the
  command line (the case that the comment at \<open>default\<close> names).
\<close>

datatype getopt_finding =
    Option_found char string
  | Unknown_flag char
  | Missing_argument char

fun getopt_returns :: "getopt_finding \<Rightarrow> getopt_result" where
  "getopt_returns (Option_found c arg) = (c, arg)"
| "getopt_returns (Unknown_flag c) = (CHR ''?'', [])"
| "getopt_returns (Missing_argument c) = (CHR ''?'', [])"

fun is_unknown_flag :: "getopt_finding \<Rightarrow> bool" where
  "is_unknown_flag (Unknown_flag c) = True"
| "is_unknown_flag f = False"

fun last_reset :: "getopt_result list \<Rightarrow> char option" where
  "last_reset [] = None"
| "last_reset ((opt, optarg) # rest) =
     (case last_reset rest of
        Some c \<Rightarrow> Some c
      | None \<Rightarrow> if opt = CHR ''f'' \<or> opt = CHR ''u'' then Some opt else None)"

subsection \<open>Example environments\<close>

text \<open>
  An environment in which initialisation, allocation and reconfiguration succeed, with
  chunk size \<open>c\<close>, the chunk-write status given by \<open>w\<close> from the history, and the
  files \<open>fs\<close>; \<open>malloc\<close> returns a new address at every call. \<open>fails_at n err\<close>
  lets the call after \<open>n\<close> earlier chunk-write calls fail with \<open>err\<close>;
  \<open>one_file name bytes\<close> is a file system with one regular file.
\<close>

definition env_example ::
  "size_t \<Rightarrow> (event list \<Rightarrow> tOplkError) \<Rightarrow> (string \<Rightarrow> opened_file option) \<Rightarrow> env" where
  "env_example c w fs =
     \<lparr>system_init = (\<lambda>h. 0), oplk_initialize = (\<lambda>h. kErrorOk),
      oplk_getStackInfo = (\<lambda>h. kErrorOk),
      oplk_serviceGetFileChunkSize = (\<lambda>h. c),
      oplk_serviceWriteFileChunk = (\<lambda>h d b. w h),
      oplk_serviceExecFirmwareReconfig = (\<lambda>h b. kErrorOk),
      malloc = (\<lambda>h n. 4096 * (1 + length h)), fopen = (\<lambda>h p. fs p),
      pImage_indeterminate = 7\<rparr>"

definition always_ok :: "event list \<Rightarrow> tOplkError" where
  "always_ok h = kErrorOk"

definition fails_at :: "nat \<Rightarrow> tOplkError \<Rightarrow> event list \<Rightarrow> tOplkError" where
  "fails_at n err h = (if length (chunk_calls h) = n then err else kErrorOk)"

definition one_file :: "string \<Rightarrow> UINT8 list \<Rightarrow> string \<Rightarrow> opened_file option" where
  "one_file name bytes p =
     (if p = name then Some \<lparr>ftell_end = of_nat (length bytes), contents = bytes\<rparr> else None)"

section \<open>The chunk loop\<close>

text \<open>
  The number of bytes of a chunk: the smaller of what is left and the chunk size. In the
  \<open>else\<close> branch the chunk size is at most \<open>length_p\<close>, so the cast
  \<open>(UINT32)chunkSize\<close> loses nothing.
\<close>

lemma unat_chunk_length:
  fixes chunkSize :: size_t and length_p :: UINT
  shows "unat (if unat length_p < unat chunkSize then length_p else ucast chunkSize)
           = min (unat length_p) (unat chunkSize)"
proof (cases "unat length_p < unat chunkSize")
  case True
  then show ?thesis by simp
next
  case False
  have "unat length_p < 2 ^ 32"
    using unsigned_less [of length_p] by simp
  with False have "unat chunkSize < 2 ^ 32" by simp
  then have "unat (ucast chunkSize :: 32 word) = unat chunkSize"
    by (simp add: unsigned_ucast_eq take_bit_nat_eq_self)
  with False show ?thesis by simp
qed

text \<open>
  The loop returns whenever the chunk size is not zero and the offset cannot overflow
  (\<open>desc.offset + length_p\<close> below \<open>2^32\<close>, as at its start with offset 0): each
  round sends at least one byte. Its events are the chunk-write calls \<open>cs\<close>, described
  by \<open>calls_from\<close> and \<open>run_ret\<close>; with result \<open>kErrorOk\<close> their lengths add
  up to \<open>length_p\<close>.
\<close>

lemma writeImageToKernel_loop_calls:
  assumes C: "chunkSize \<noteq> 0"
  shows "unat (offset desc) + unat length_p < 2 ^ 32 \<Longrightarrow>
    \<exists>ret' cs.
      writeImageToKernel_loop env h chunkSize ret desc pImage_p length_p
        = Some (ret', map call_event cs)
      \<and> calls_from (unat chunkSize) (fFirst desc) (fLast desc) (unat (offset desc))
            (unat length_p) pImage_p cs
      \<and> run_ret ret cs ret'
      \<and> (ret' = kErrorOk \<longrightarrow>
            sum_list (map (\<lambda>c. unat (length_d (fst c))) cs) = unat length_p)"
proof (induction "unat length_p" arbitrary: h ret desc pImage_p length_p rule: less_induct)
  case less
  show ?case
  proof (cases "length_p = 0")
    case True
    have "writeImageToKernel_loop env h chunkSize ret desc pImage_p length_p = Some (ret, map call_event [])"
      by (subst writeImageToKernel_loop.simps) (simp add: True)
    moreover have "calls_from (unat chunkSize) (fFirst desc) (fLast desc) (unat (offset desc))
            (unat length_p) pImage_p []" by simp
    moreover have "run_ret ret [] ret" by simp
    moreover have "ret = kErrorOk \<longrightarrow>
            sum_list (map (\<lambda>c. unat (length_d (fst c))) ([] :: chunk_call list)) = unat length_p"
      using True by simp
    ultimately show ?thesis by blast
  next
    case False
    define len where "len = (if unat length_p < unat chunkSize then length_p else ucast chunkSize)"
    define desc1 where "desc1 = (if unat length_p < unat chunkSize
                     then desc\<lparr>length_d := length_p, fLast := True\<rparr>
                     else desc\<lparr>length_d := ucast chunkSize\<rparr>)"
    define pChunk where "pChunk = take (unat len) pImage_p"
    define ret1 where "ret1 = oplk_serviceWriteFileChunk env h desc1 pChunk"
    define e where "e = Ev_oplk_serviceWriteFileChunk desc1 pChunk ret1"
    define desc2 where "desc2 = desc1\<lparr>offset := offset desc1 + length_d desc1, fFirst := False\<rparr>"
    have len: "unat len = min (unat length_p) (unat chunkSize)"
      unfolding len_def by (rule unat_chunk_length)
    have Lpos: "0 < unat length_p" using False by (simp add: unat_gt_0)
    have Cpos: "0 < unat chunkSize" using C by (simp add: unat_gt_0)
    have pos: "0 < unat len" using len Lpos Cpos by simp
    have d1: "length_d desc1 = len" "offset desc1 = offset desc" "fFirst desc1 = fFirst desc"
      "fLast desc1 = (fLast desc \<or> unat length_p < unat chunkSize)"
      by (simp_all add: desc1_def len_def)
    have unfold: "writeImageToKernel_loop env h chunkSize ret desc pImage_p length_p =
       (if ret1 \<noteq> kErrorOk then Some (ret1, [e])
        else Option.bind
               (writeImageToKernel_loop env (h @ [e]) chunkSize ret1 desc2
                  (drop (unat len) pImage_p) (length_p - len))
               (\<lambda>(r, es). Some (r, e # es)))"
      by (subst writeImageToKernel_loop.simps)
         (simp add: False Let_def desc1_def len_def pChunk_def ret1_def e_def desc2_def)
    have here: "0 < unat length_p \<and> unat (length_d desc1) = min (unat length_p) (unat chunkSize)
       \<and> unat (offset desc1) = unat (offset desc) \<and> fFirst desc1 = fFirst desc
       \<and> fLast desc1 = (fLast desc \<or> unat length_p < unat chunkSize)
       \<and> pChunk = take (unat (length_d desc1)) pImage_p"
      using Lpos len d1 by (simp add: pChunk_def)
    show ?thesis
    proof (cases "ret1 = kErrorOk")
      case bad: False
      have "writeImageToKernel_loop env h chunkSize ret desc pImage_p length_p
              = Some (ret1, map call_event [(desc1, pChunk, ret1)])"
        using bad by (simp add: unfold call_event_def e_def)
      moreover have "calls_from (unat chunkSize) (fFirst desc) (fLast desc) (unat (offset desc))
            (unat length_p) pImage_p [(desc1, pChunk, ret1)]"
        using here by simp
      moreover have "run_ret ret [(desc1, pChunk, ret1)] ret1"
        using bad by simp
      moreover have "ret1 = kErrorOk \<longrightarrow>
            sum_list (map (\<lambda>c. unat (length_d (fst c))) [(desc1, pChunk, ret1)]) = unat length_p"
        using bad by simp
      ultimately show ?thesis by blast
    next
      case ok: True
      have le: "len \<le> length_p"
        using len by (simp add: word_le_nat_alt)
      have sub: "unat (length_p - len) = unat length_p - unat len"
        using le by (rule unat_sub)
      have lt: "unat (length_p - len) < unat length_p"
        using sub pos Lpos by simp
      have bound: "unat (offset desc) + unat len < 2 ^ 32"
        using less.prems len by simp
      have off2: "unat (offset desc2) = unat (offset desc) + unat len"
        using bound by (simp add: desc2_def d1 unat_add_lem [THEN iffD1])
      have bound2: "unat (offset desc2) + unat (length_p - len) < 2 ^ 32"
        using less.prems off2 sub len by simp
      from less.hyps [OF lt bound2, of "h @ [e]" ret1 "drop (unat len) pImage_p"]
      obtain ret' cs where
        run: "writeImageToKernel_loop env (h @ [e]) chunkSize ret1 desc2
                (drop (unat len) pImage_p) (length_p - len) = Some (ret', map call_event cs)"
        and calls: "calls_from (unat chunkSize) (fFirst desc2) (fLast desc2) (unat (offset desc2))
            (unat (length_p - len)) (drop (unat len) pImage_p) cs"
        and rr: "run_ret ret1 cs ret'"
        and tot: "ret' = kErrorOk \<longrightarrow>
            sum_list (map (\<lambda>c. unat (length_d (fst c))) cs) = unat (length_p - len)"
        by blast
      have d2: "fFirst desc2 = False" "fLast desc2 = fLast desc1"
        by (simp_all add: desc2_def)
      have "writeImageToKernel_loop env h chunkSize ret desc pImage_p length_p
              = Some (ret', map call_event ((desc1, pChunk, ret1) # cs))"
        using ok run by (simp add: unfold call_event_def e_def)
      moreover have "calls_from (unat chunkSize) (fFirst desc) (fLast desc) (unat (offset desc))
            (unat length_p) pImage_p ((desc1, pChunk, ret1) # cs)"
        using here calls d2 off2 sub d1 by simp
      moreover have "run_ret ret ((desc1, pChunk, ret1) # cs) ret'"
        using ok rr by simp
      moreover have "ret' = kErrorOk \<longrightarrow>
            sum_list (map (\<lambda>c. unat (length_d (fst c))) ((desc1, pChunk, ret1) # cs)) = unat length_p"
        using tot sub d1 len by auto
      ultimately show ?thesis by blast
    qed
  qed
qed

lemma chunk_calls_append: "chunk_calls (xs @ ys) = chunk_calls xs @ chunk_calls ys"
  by (induction xs rule: chunk_calls.induct) simp_all

lemma chunk_calls_call_events: "chunk_calls (map call_event cs) = cs"
  by (induction cs) (auto simp: call_event_def)

lemma calls_from_nth:
  "calls_from C first sticky off rem img cs \<Longrightarrow> 0 < C \<Longrightarrow> i < length cs \<Longrightarrow>
     1 \<le> seg_len (cs ! i) \<and> seg_len (cs ! i) \<le> C
     \<and> unat (offset (fst (cs ! i))) = off + sum_list (map seg_len (take i cs))
     \<and> fst (snd (cs ! i)) = take (seg_len (cs ! i)) (drop (sum_list (map seg_len (take i cs))) img)
     \<and> fFirst (fst (cs ! i)) = (first \<and> i = 0)
     \<and> fLast (fst (cs ! i)) = (sticky \<or> rem - sum_list (map seg_len (take i cs)) < C)"
proof (induction cs arbitrary: first sticky off rem img i)
  case Nil
  then show ?case by simp
next
  case (Cons c cs)
  obtain d b r where c: "c = (d, b, r)" by (cases c)
  show ?case
  proof (cases i)
    case 0
    with Cons.prems c show ?thesis by auto
  next
    case (Suc j)
    from Cons.prems(1) have tl: "calls_from C False (fLast d) (off + unat (length_d d))
        (rem - unat (length_d d)) (drop (unat (length_d d)) img) cs"
      and hd: "unat (length_d d) = min rem C" "0 < rem" "fLast d = (sticky \<or> rem < C)"
      unfolding c calls_from.simps by blast+
    from Suc Cons.prems have j: "j < length cs" by simp
    note IH = Cons.IH [OF tl \<open>0 < C\<close> j]
    have pre: "sum_list (map seg_len (take i (c # cs)))
                 = unat (length_d d) + sum_list (map seg_len (take j cs))"
      using Suc c by simp
    have nth: "(c # cs) ! i = cs ! j" using Suc by simp
    have "drop (sum_list (map seg_len (take j cs))) (drop (unat (length_d d)) img)
            = drop (unat (length_d d) + sum_list (map seg_len (take j cs))) img"
      by (simp add: add.commute)
    moreover have "rem - unat (length_d d) - sum_list (map seg_len (take j cs))
            = rem - (unat (length_d d) + sum_list (map seg_len (take j cs)))"
      by simp
    moreover have "(fLast d \<or> rem - (unat (length_d d) + sum_list (map seg_len (take j cs))) < C)
            = (sticky \<or> rem - (unat (length_d d) + sum_list (map seg_len (take j cs))) < C)"
      using hd \<open>0 < C\<close> by auto
    ultimately show ?thesis
      unfolding pre nth using IH Suc by (simp add: add.assoc)
  qed
qed

lemma calls_from_nth_len:
  "calls_from C first sticky off rem img cs \<Longrightarrow> i < length cs \<Longrightarrow>
     seg_len (cs ! i) = min (rem - sum_list (map seg_len (take i cs))) C"
proof (induction cs arbitrary: first sticky off rem img i)
  case Nil
  then show ?case by simp
next
  case (Cons c cs)
  obtain d b r where c: "c = (d, b, r)" by (cases c)
  from Cons.prems(1) have tl: "calls_from C False (fLast d) (off + unat (length_d d))
        (rem - unat (length_d d)) (drop (unat (length_d d)) img) cs"
    and hd: "unat (length_d d) = min rem C"
    unfolding c calls_from.simps by blast+
  show ?case
  proof (cases i)
    case 0
    with hd c show ?thesis by simp
  next
    case (Suc j)
    with Cons.prems have j: "j < length cs" by simp
    from Cons.IH [OF tl j] Suc c show ?thesis by simp
  qed
qed

lemma calls_from_concat:
  "calls_from C first sticky off rem img cs \<Longrightarrow>
     concat (map (\<lambda>c. fst (snd c)) cs) = take (sum_list (map seg_len cs)) img"
proof (induction cs arbitrary: first sticky off rem img)
  case Nil
  then show ?case by simp
next
  case (Cons c cs)
  obtain d b r where c: "c = (d, b, r)" by (cases c)
  from Cons.prems(1) have tl: "calls_from C False (fLast d) (off + unat (length_d d))
        (rem - unat (length_d d)) (drop (unat (length_d d)) img) cs"
    and b: "b = take (unat (length_d d)) img"
    unfolding c calls_from.simps by blast+
  show ?case
    using Cons.IH [OF tl] b c by (simp add: take_add)
qed

lemma calls_from_offsets_ge:
  "calls_from C first sticky off rem img cs \<Longrightarrow> c \<in> set cs \<Longrightarrow> off \<le> unat (offset (fst c))"
proof (induction cs arbitrary: first sticky off rem img)
  case Nil
  then show ?case by simp
next
  case (Cons a cs)
  obtain d b r where a: "a = (d, b, r)" by (cases a)
  from Cons.prems(1) have tl: "calls_from C False (fLast d) (off + unat (length_d d))
        (rem - unat (length_d d)) (drop (unat (length_d d)) img) cs"
    and o: "unat (offset d) = off"
    unfolding a calls_from.simps by blast+
  show ?case
  proof (cases "c = a")
    case True
    with o a show ?thesis by simp
  next
    case False
    with Cons.prems have "c \<in> set cs" by simp
    from Cons.IH [OF tl this] show ?thesis by simp
  qed
qed

lemma calls_from_offsets_increase:
  "calls_from C first sticky off rem img cs \<Longrightarrow> 0 < C \<Longrightarrow>
     sorted_wrt (\<lambda>c c'. unat (offset (fst c)) < unat (offset (fst c'))) cs"
proof (induction cs arbitrary: first sticky off rem img)
  case Nil
  then show ?case by simp
next
  case (Cons a cs)
  obtain d b r where a: "a = (d, b, r)" by (cases a)
  from Cons.prems(1) have tl: "calls_from C False (fLast d) (off + unat (length_d d))
        (rem - unat (length_d d)) (drop (unat (length_d d)) img) cs"
    and o: "unat (offset d) = off" and l: "unat (length_d d) = min rem C" "0 < rem"
    unfolding a calls_from.simps by blast+
  have "unat (offset d) < unat (offset (fst c))" if "c \<in> set cs" for c
    using calls_from_offsets_ge [OF tl that] o l \<open>0 < C\<close> by simp
  with Cons.IH [OF tl \<open>0 < C\<close>] a show ?case by simp
qed

lemma run_ret_nth:
  "run_ret ret cs ret' \<Longrightarrow> i < length cs \<Longrightarrow> snd (snd (cs ! i)) \<noteq> kErrorOk \<Longrightarrow>
     Suc i = length cs \<and> ret' = snd (snd (cs ! i))"
proof (induction cs arbitrary: ret i)
  case Nil
  then show ?case by simp
next
  case (Cons c cs)
  obtain d b r where c: "c = (d, b, r)" by (cases c)
  show ?case
  proof (cases i)
    case 0
    with Cons.prems c show ?thesis by simp
  next
    case (Suc j)
    with Cons.prems c have "r = kErrorOk" by (auto split: if_splits)
    with Cons.prems c have "run_ret r cs ret'" by simp
    from Cons.IH [OF this, of j] Cons.prems Suc
    have "Suc j = length cs \<and> ret' = snd (snd (cs ! j))" by simp
    then show ?thesis unfolding Suc by (metis length_Cons nth_Cons_Suc)
  qed
qed

lemma run_ret_all_ok:
  "run_ret ret cs ret' \<Longrightarrow> ret = kErrorOk \<Longrightarrow> \<forall>c\<in>set cs. snd (snd c) = kErrorOk \<Longrightarrow> ret' = kErrorOk"
  by (induction cs arbitrary: ret) (auto split: if_splits)

lemma writeImageToKernel_run:
  assumes C: "oplk_serviceGetFileChunkSize env h \<noteq> 0"
  defines "chunkSize \<equiv> oplk_serviceGetFileChunkSize env h"
  defines "pChunk \<equiv> malloc env h chunkSize"
  shows "\<exists>ret cs.
     writeImageToKernel env h pImage_p length_p
       = Some (ret, if pChunk = NULL then [Ev_malloc chunkSize pChunk]
                    else Ev_malloc chunkSize pChunk # map call_event cs @ [Ev_free pChunk])
     \<and> calls_from (unat chunkSize) True False 0 (unat length_p) pImage_p cs
     \<and> (if pChunk = NULL then cs = [] \<and> ret = kErrorNoResource else run_ret kErrorOk cs ret)
     \<and> (ret = kErrorOk \<longrightarrow> sum_list (map seg_len cs) = unat length_p)"
proof (cases "pChunk = NULL")
  case True
  then have "writeImageToKernel env h pImage_p length_p = Some (kErrorNoResource, [Ev_malloc chunkSize pChunk])"
    using C by (simp add: writeImageToKernel_def Let_def chunkSize_def pChunk_def)
  moreover have "calls_from (unat chunkSize) True False 0 (unat length_p) pImage_p []" by simp
  ultimately show ?thesis using True by (intro exI [of _ kErrorNoResource] exI [of _ "[]"]) simp
next
  case False
  have b: "unat (offset \<lparr>fFirst = True, fLast = False, offset = 0, length_d = 0\<rparr>) + unat length_p < 2 ^ 32"
    using unsigned_less [of length_p] by simp
  from writeImageToKernel_loop_calls [OF C [folded chunkSize_def] b,
      of env "h @ [Ev_malloc chunkSize pChunk]" kErrorOk pImage_p]
  obtain ret cs where
    run: "writeImageToKernel_loop env (h @ [Ev_malloc chunkSize pChunk]) chunkSize kErrorOk
       \<lparr>fFirst = True, fLast = False, offset = 0, length_d = 0\<rparr> pImage_p length_p = Some (ret, map call_event cs)"
    and calls: "calls_from (unat chunkSize) True False 0 (unat length_p) pImage_p cs"
    and rr: "run_ret kErrorOk cs ret"
    and tot: "ret = kErrorOk \<longrightarrow> sum_list (map seg_len cs) = unat length_p"
    by auto
  have "writeImageToKernel env h pImage_p length_p
       = Some (ret, Ev_malloc chunkSize pChunk # map call_event cs @ [Ev_free pChunk])"
    using C False run by (simp add: writeImageToKernel_def Let_def chunkSize_def pChunk_def)
  with calls rr tot False show ?thesis by auto
qed

section \<open>What each function returns and logs\<close>

subsection \<open>writeImageToKernel, invalidateImage, updateImage\<close>

text \<open>
  \<open>writeImageToKernel\<close> always returns. Its events hold no reconfiguration call, and
  the chunk buffer it allocates is freed before it returns, so its events leave the held
  resources as they were. Its chunk-write calls carry bytes of the buffer only.
\<close>


lemma reconfig_calls_append: "reconfig_calls (xs @ ys) = reconfig_calls xs @ reconfig_calls ys"
  by (induction xs rule: reconfig_calls.induct) simp_all

lemma reconfig_calls_call_events: "reconfig_calls (map call_event cs) = []"
  by (induction cs) (auto simp: call_event_def)

lemma released_call_events: "released bufs files (map call_event cs @ es) = released bufs files es"
  by (induction cs) (auto simp: call_event_def)

lemma writeImageToKernel_events:
  "\<exists>ret es. writeImageToKernel env h pImage_p length_p = Some (ret, es)
     \<and> reconfig_calls es = []
     \<and> (\<forall>bufs files rest. released bufs files (es @ rest) = released bufs files rest)"
proof (cases "oplk_serviceGetFileChunkSize env h = 0")
  case True
  then have "writeImageToKernel env h pImage_p length_p = Some (kErrorNoResource, [])"
    by (simp add: writeImageToKernel_def)
  then show ?thesis by simp
next
  case False
  from writeImageToKernel_run [OF False, of pImage_p length_p]
  obtain ret cs where
    run: "writeImageToKernel env h pImage_p length_p
       = Some (ret, if malloc env h (oplk_serviceGetFileChunkSize env h) = NULL
                    then [Ev_malloc (oplk_serviceGetFileChunkSize env h)
                            (malloc env h (oplk_serviceGetFileChunkSize env h))]
                    else Ev_malloc (oplk_serviceGetFileChunkSize env h)
                            (malloc env h (oplk_serviceGetFileChunkSize env h))
                         # map call_event cs
                         @ [Ev_free (malloc env h (oplk_serviceGetFileChunkSize env h))])"
    by blast
  show ?thesis
    unfolding run
    by (simp add: reconfig_calls_append reconfig_calls_call_events released_call_events)
qed

lemma writeImageToKernel_Some: "writeImageToKernel env h pImage_p length_p \<noteq> None"
  using writeImageToKernel_events [of env h pImage_p length_p] by auto

lemma writeImageToKernel_reconfig:
  "writeImageToKernel env h pImage_p length_p = Some (ret, es) \<Longrightarrow> reconfig_calls es = []"
  using writeImageToKernel_events [of env h pImage_p length_p] by auto

lemma writeImageToKernel_released:
  "writeImageToKernel env h pImage_p length_p = Some (ret, es) \<Longrightarrow>
     released bufs files (es @ rest) = released bufs files rest"
  using writeImageToKernel_events [of env h pImage_p length_p] by auto

lemma invalidateImage_Some: "invalidateImage env h \<noteq> None"
  by (simp add: invalidateImage_def Let_def writeImageToKernel_Some)

lemma invalidateImage_reconfig:
  "invalidateImage env h = Some (ret, es) \<Longrightarrow> reconfig_calls es = []"
  by (simp add: invalidateImage_def Let_def writeImageToKernel_reconfig)

text \<open>
  \<open>updateImage\<close> always ends. It ends without returning exactly when the file opens,
  its size is 0 and the unassigned \<open>pImage\<close> is not \<open>NULL\<close>; in every other case
  it returns and its events are a correct release of what it acquired.
\<close>

lemma reconfig_calls_updateImage_Exit:
  "reconfig_calls (snd (updateImage_Exit allocated ret p name)) = []"
  by (simp add: updateImage_Exit_def)

lemma updateImage_Some: "updateImage env h pszFirmwareFile_p \<noteq> None"
  by (auto simp: updateImage_def Let_def writeImageToKernel_Some
        split: option.splits prod.splits Option.bind_splits)

lemma updateImage_reconfig:
  "updateImage env h pszFirmwareFile_p = Some (out, es) \<Longrightarrow> reconfig_calls es = []"
  by (auto simp: updateImage_def Let_def reconfig_calls_append updateImage_Exit_def
        dest: writeImageToKernel_reconfig
        split: option.splits if_splits prod.splits Option.bind_splits)

lemma updateImage_Crashes:
  "updateImage env h pszFirmwareFile_p = Some (out, es) \<Longrightarrow>
     (out = Crashes)
       = (\<exists>pFile. fopen env h pszFirmwareFile_p = Some pFile
               \<and> (ucast (ftell_end pFile) :: 32 word) = 0
               \<and> pImage_indeterminate env \<noteq> NULL)"
  by (auto simp: updateImage_def Let_def updateImage_Exit_def
        split: option.splits if_splits prod.splits Option.bind_splits)

lemma updateImage_CrashesD:
  "updateImage env h pszFirmwareFile_p = Some (Crashes, es) \<Longrightarrow>
     pImage_indeterminate env \<noteq> NULL
     \<and> (\<exists>h pFile. fopen env h pszFirmwareFile_p = Some pFile
               \<and> (ucast (ftell_end pFile) :: 32 word) = 0)"
  using updateImage_Crashes [of env h pszFirmwareFile_p Crashes es] by auto

lemma updateImage_released:
  "updateImage env h pszFirmwareFile_p = Some (out, es) \<Longrightarrow>
     released [] [] es = (out \<noteq> Crashes)"
  by (auto simp: updateImage_def Let_def updateImage_Exit_def writeImageToKernel_released
        split: option.splits if_splits prod.splits Option.bind_splits)

lemma updateImage_empty_file:
  assumes "fopen env h pszFirmwareFile_p = Some pFile"
    and "(ucast (ftell_end pFile) :: 32 word) = 0"
  shows "updateImage env h pszFirmwareFile_p
     = Some (if pImage_indeterminate env = NULL
             then (Returns kErrorNoResource,
                   [Ev_fopen pszFirmwareFile_p True, Ev_fclose pszFirmwareFile_p])
             else (Crashes,
                   [Ev_fopen pszFirmwareFile_p True, Ev_free (pImage_indeterminate env)]))"
  using assms by (simp add: updateImage_def updateImage_Exit_def)

lemma writeImageToKernel_delivers:
  "\<exists>ret es. writeImageToKernel env h pImage_p length_p = Some (ret, es)
     \<and> (\<forall>c\<in>set (chunk_calls es). set (fst (snd c)) \<subseteq> set pImage_p)
     \<and> (ret = kErrorOk \<longrightarrow>
           concat (map (\<lambda>c. fst (snd c)) (chunk_calls es)) = take (unat length_p) pImage_p)"
proof (cases "oplk_serviceGetFileChunkSize env h = 0")
  case True
  then have "writeImageToKernel env h pImage_p length_p = Some (kErrorNoResource, [])"
    by (simp add: writeImageToKernel_def)
  then show ?thesis by simp
next
  case C: False
  define chunkSize where "chunkSize = oplk_serviceGetFileChunkSize env h"
  define pChunk where "pChunk = malloc env h chunkSize"
  from writeImageToKernel_run [OF C, of pImage_p length_p]
  obtain ret cs where
    run: "writeImageToKernel env h pImage_p length_p
       = Some (ret, if pChunk = NULL then [Ev_malloc chunkSize pChunk]
                    else Ev_malloc chunkSize pChunk # map call_event cs @ [Ev_free pChunk])"
    and calls: "calls_from (unat chunkSize) True False 0 (unat length_p) pImage_p cs"
    and rr: "if pChunk = NULL then cs = [] \<and> ret = kErrorNoResource else run_ret kErrorOk cs ret"
    and tot: "ret = kErrorOk \<longrightarrow> sum_list (map seg_len cs) = unat length_p"
    unfolding chunkSize_def pChunk_def by blast
  define es where "es = (if pChunk = NULL then [Ev_malloc chunkSize pChunk]
                    else Ev_malloc chunkSize pChunk # map call_event cs @ [Ev_free pChunk])"
  have cs: "chunk_calls es = cs"
    using rr by (simp add: es_def chunk_calls_append chunk_calls_call_events)
  have Cpos: "0 < unat chunkSize"
    using C by (simp add: chunkSize_def unat_gt_0)
  have bytes: "set (fst (snd c)) \<subseteq> set pImage_p" if "c \<in> set cs" for c
  proof -
    from that obtain i where i: "i < length cs" and c: "cs ! i = c"
      by (auto simp: in_set_conv_nth)
    from calls_from_nth [OF calls Cpos i]
    have "fst (snd (cs ! i)) = take (seg_len (cs ! i))
            (drop (sum_list (map seg_len (take i cs))) pImage_p)"
      by blast
    then have "fst (snd c) = take (seg_len c) (drop (sum_list (map seg_len (take i cs))) pImage_p)"
      unfolding c .
    moreover have "set (take n (drop k pImage_p)) \<subseteq> set pImage_p" for n k
      by (auto dest: in_set_takeD in_set_dropD)
    ultimately show ?thesis by simp
  qed
  have whole: "concat (map (\<lambda>c. fst (snd c)) cs) = take (unat length_p) pImage_p"
    if "ret = kErrorOk"
    using calls_from_concat [OF calls] tot that by simp
  have "writeImageToKernel env h pImage_p length_p = Some (ret, es)"
    using run by (simp add: es_def)
  with bytes whole show ?thesis
    unfolding cs [symmetric] by blast
qed

text \<open>
  The flags of the calls: \<open>fFirst\<close> is set on the first call and on no other;
  \<open>fLast\<close> is set exactly on a call whose segment is shorter than the chunk size.
\<close>

lemma writeImageToKernel_flags:
  assumes C: "oplk_serviceGetFileChunkSize env h \<noteq> 0"
  shows "\<exists>ret es. writeImageToKernel env h pImage_p length_p = Some (ret, es) \<and>
     (\<forall>i<length (chunk_calls es).
         fFirst (fst (chunk_calls es ! i)) = (i = 0)
       \<and> fLast (fst (chunk_calls es ! i))
           = (seg_len (chunk_calls es ! i) < unat (oplk_serviceGetFileChunkSize env h)))"
proof -
  define chunkSize where "chunkSize = oplk_serviceGetFileChunkSize env h"
  define pChunk where "pChunk = malloc env h chunkSize"
  from writeImageToKernel_run [OF C, of pImage_p length_p]
  obtain ret cs where
    run: "writeImageToKernel env h pImage_p length_p
       = Some (ret, if pChunk = NULL then [Ev_malloc chunkSize pChunk]
                    else Ev_malloc chunkSize pChunk # map call_event cs @ [Ev_free pChunk])"
    and calls: "calls_from (unat chunkSize) True False 0 (unat length_p) pImage_p cs"
    and rr: "if pChunk = NULL then cs = [] \<and> ret = kErrorNoResource else run_ret kErrorOk cs ret"
    unfolding chunkSize_def pChunk_def by blast
  define es where "es = (if pChunk = NULL then [Ev_malloc chunkSize pChunk]
                    else Ev_malloc chunkSize pChunk # map call_event cs @ [Ev_free pChunk])"
  have cs: "chunk_calls es = cs"
    using rr by (simp add: es_def chunk_calls_append chunk_calls_call_events)
  have Cpos: "0 < unat chunkSize"
    using C by (simp add: chunkSize_def unat_gt_0)
  have flags: "fFirst (fst (cs ! i)) = (i = 0)
       \<and> fLast (fst (cs ! i)) = (seg_len (cs ! i) < unat chunkSize)"
    if "i < length cs" for i
  proof -
    from calls_from_nth [OF calls Cpos that]
    have f: "fFirst (fst (cs ! i)) = (i = 0)"
      and l: "fLast (fst (cs ! i))
               = (unat length_p - sum_list (map seg_len (take i cs)) < unat chunkSize)"
      by simp_all
    from calls_from_nth_len [OF calls that]
    have "seg_len (cs ! i) = min (unat length_p - sum_list (map seg_len (take i cs))) (unat chunkSize)" .
    with f l show ?thesis by auto
  qed
  have "writeImageToKernel env h pImage_p length_p = Some (ret, es)"
    using run by (simp add: es_def)
  with flags show ?thesis
    unfolding cs [symmetric] chunkSize_def [symmetric] by blast
qed

lemma unat_32: "unat (32 :: UINT) = 32"
  by simp

subsection \<open>getOptions\<close>

lemma getOptions_loop_ret:
  "fst (getOptions_loop g pOpts) = (if \<exists>r\<in>set g. default_case r then - 1 else 0)"
  by (induction g pOpts rule: getOptions_loop.induct) (auto simp: default_case_def)

lemma getOptions_loop_events:
  "snd (snd (getOptions_loop g pOpts)) = (if \<exists>r\<in>set g. default_case r then [Ev_usage] else [])"
  by (induction g pOpts rule: getOptions_loop.induct) (auto simp: default_case_def)

lemma getOptions_loop_exclusive:
  "\<not> (fFactoryReset pOpts \<and> fUpdateReset pOpts) \<Longrightarrow>
     \<not> (fFactoryReset (fst (snd (getOptions_loop g pOpts)))
        \<and> fUpdateReset (fst (snd (getOptions_loop g pOpts))))"
  by (induction g pOpts rule: getOptions_loop.induct) (auto split: if_splits)

lemma getOptions_loop_last_reset:
  "\<not> (\<exists>r\<in>set g. default_case r) \<Longrightarrow>
     fFactoryReset (fst (snd (getOptions_loop g pOpts)))
       = (case last_reset g of None \<Rightarrow> fFactoryReset pOpts | Some c \<Rightarrow> c = CHR ''f'')
     \<and> fUpdateReset (fst (snd (getOptions_loop g pOpts)))
       = (case last_reset g of None \<Rightarrow> fUpdateReset pOpts | Some c \<Rightarrow> c = CHR ''u'')"
proof (induction g pOpts rule: getOptions_loop.induct)
  case (1 pOpts)
  then show ?case by simp
next
  case (2 opt optarg rest pOpts)
  from "2.prems" have known: "\<not> default_case (opt, optarg)"
    and rest: "\<not> (\<exists>r\<in>set rest. default_case r)"
    by simp_all
  from known consider "opt = CHR ''d''" | "opt = CHR ''e''" | "opt = CHR ''f''" | "opt = CHR ''u''"
    by (auto simp: default_case_def)
  then show ?case
  proof cases
    case 1
    with "2.IH"(1) [OF 1 rest] show ?thesis by (simp split: option.splits)
  next
    case 2
    with "2.IH"(2) [OF _ 2 rest] show ?thesis by (simp split: option.splits)
  next
    case 3
    with "2.IH"(3) [OF _ _ 3 rest] show ?thesis by (simp split: option.splits)
  next
    case 4
    with "2.IH"(4) [OF _ _ _ 4 rest] show ?thesis by (simp split: option.splits)
  qed
qed

lemma last_reset_cases:
  "last_reset g = Some c \<Longrightarrow> c = CHR ''f'' \<or> c = CHR ''u''"
  by (induction g rule: last_reset.induct) (auto split: option.splits if_splits)

lemma strncpy_image_bin: "strncpy ''image.bin'' 256 = ''image.bin'' @ replicate 247 NUL"
  by (simp add: strncpy_def NUL_def)

lemma c_str_padded: "\<forall>c\<in>set s. c \<noteq> NUL \<Longrightarrow> c_str (s @ replicate n NUL) = s"
  by (cases n) (simp_all add: c_str_def takeWhile_append2 takeWhile_eq_all_conv [THEN iffD2])

subsection \<open>main\<close>


lemma getOptions_ret:
  "fst (getOptions argc_p g pOpts) = (if \<exists>r\<in>set g. default_case r then - 1 else 0)"
  by (simp add: getOptions_def getOptions_loop_ret)

lemma getOptions_events:
  "snd (snd (getOptions argc_p g pOpts)) = (if \<exists>r\<in>set g. default_case r then [Ev_usage] else [])"
  by (simp add: getOptions_def getOptions_loop_events)

lemma main_Some: "main env argc g \<noteq> None"
  by (auto simp: main_def Let_def invalidateImage_Some updateImage_Some
        split: prod.splits if_splits ending.splits Option.bind_splits)

lemma main_result:
  assumes "main env argc g = Some (out, es)"
  shows "fst (getOptions argc g opts_zero) = - 1 \<Longrightarrow>
           out = Returns (- 1, fst (snd (getOptions argc g opts_zero)))
           \<and> es = snd (snd (getOptions argc g opts_zero))"
    and "fst (getOptions argc g opts_zero) \<noteq> - 1 \<Longrightarrow>
           out = Returns (0, fst (snd (getOptions argc g opts_zero))) \<or> out = Crashes"
    and "length (reconfig_calls es) \<le> 1"
    and "\<forall>c\<in>set (reconfig_calls es).
           fst c = fFactoryReset (fst (snd (getOptions argc g opts_zero)))"
    and "out = Crashes \<Longrightarrow>
           fUpdateImage (fst (snd (getOptions argc g opts_zero)))
           \<and> pImage_indeterminate env \<noteq> NULL
           \<and> (\<exists>h pFile.
                 fopen env h (c_str (firmwareFile (fst (snd (getOptions argc g opts_zero)))))
                   = Some pFile
                 \<and> (ucast (ftell_end pFile) :: 32 word) = 0)"
proof -
  obtain r o' h0 where go: "getOptions argc g opts_zero = (r, o', h0)"
    by (cases "getOptions argc g opts_zero")
  have h0: "reconfig_calls h0 = []"
    using getOptions_events [of argc g opts_zero] by (auto simp: go split: if_splits)
  from assms show "out = Returns (- 1, fst (snd (getOptions argc g opts_zero)))
           \<and> es = snd (snd (getOptions argc g opts_zero))"
    if "fst (getOptions argc g opts_zero) = - 1"
    using that by (simp add: main_def go)
  from assms show "out = Returns (0, fst (snd (getOptions argc g opts_zero))) \<or> out = Crashes"
    if "fst (getOptions argc g opts_zero) \<noteq> - 1"
    using that
    by (auto simp: main_def go Let_def split: if_splits ending.splits Option.bind_splits)
  from assms h0 show "length (reconfig_calls es) \<le> 1"
    by (auto simp: main_def go Let_def reconfig_calls_append main_Exit_def main_oplk_exit_Exit_def
          dest!: invalidateImage_reconfig updateImage_reconfig
          split: if_splits ending.splits Option.bind_splits)
  from assms h0 show "\<forall>c\<in>set (reconfig_calls es).
           fst c = fFactoryReset (fst (snd (getOptions argc g opts_zero)))"
    by (auto simp: main_def go Let_def reconfig_calls_append main_Exit_def main_oplk_exit_Exit_def
          dest!: invalidateImage_reconfig updateImage_reconfig
          split: if_splits ending.splits Option.bind_splits)
  from assms show "fUpdateImage (fst (snd (getOptions argc g opts_zero)))
           \<and> pImage_indeterminate env \<noteq> NULL
           \<and> (\<exists>h pFile.
                 fopen env h (c_str (firmwareFile (fst (snd (getOptions argc g opts_zero)))))
                   = Some pFile
                 \<and> (ucast (ftell_end pFile) :: 32 word) = 0)"
    if "out = Crashes"
    using that
    by (auto simp: main_def go Let_def dest!: updateImage_CrashesD
          split: if_splits ending.splits Option.bind_splits)
qed

section \<open>Claims about the chunked transfer\<close>

text \<open>
  C1. The chunk-write calls of \<open>writeImageToKernel\<close>, for a buffer of
  \<open>length_p\<close> bytes and a chunk size that is not zero: the function returns, and every
  call it makes carries a segment of at least 1 and at most chunk-size bytes, at an offset
  that is the sum of the lengths of the calls before it (0 for the first), with the bytes
  of the buffer at that offset. The calls are made as long as the library reports
  success: when the chunk buffer is allocated and every call reports success the result
  is \<open>kErrorOk\<close>, and whenever the result is \<open>kErrorOk\<close> the segments of all
  calls, one after the other, are the input buffer. (The statement also holds for an empty
  buffer, which makes no call.)
\<close>

theorem writeImageToKernel_segments:
  assumes C: "oplk_serviceGetFileChunkSize env h \<noteq> 0"
    and L: "length pImage_p = unat length_p"
  shows "\<exists>ret es. writeImageToKernel env h pImage_p length_p = Some (ret, es) \<and>
     (\<forall>i<length (chunk_calls es).
         1 \<le> seg_len (chunk_calls es ! i)
       \<and> seg_len (chunk_calls es ! i) \<le> unat (oplk_serviceGetFileChunkSize env h)
       \<and> unat (offset (fst (chunk_calls es ! i)))
           = sum_list (map seg_len (take i (chunk_calls es)))
       \<and> fst (snd (chunk_calls es ! i))
           = take (seg_len (chunk_calls es ! i))
               (drop (unat (offset (fst (chunk_calls es ! i)))) pImage_p))
     \<and> (malloc env h (oplk_serviceGetFileChunkSize env h) \<noteq> NULL
          \<and> (\<forall>c\<in>set (chunk_calls es). snd (snd c) = kErrorOk) \<longrightarrow> ret = kErrorOk)
     \<and> (ret = kErrorOk \<longrightarrow> concat (map (\<lambda>c. fst (snd c)) (chunk_calls es)) = pImage_p)"
proof -
  define chunkSize where "chunkSize = oplk_serviceGetFileChunkSize env h"
  define pChunk where "pChunk = malloc env h chunkSize"
  from writeImageToKernel_run [OF C, of pImage_p length_p]
  obtain ret cs where
    run: "writeImageToKernel env h pImage_p length_p
       = Some (ret, if pChunk = NULL then [Ev_malloc chunkSize pChunk]
                    else Ev_malloc chunkSize pChunk # map call_event cs @ [Ev_free pChunk])"
    and calls: "calls_from (unat chunkSize) True False 0 (unat length_p) pImage_p cs"
    and rr: "if pChunk = NULL then cs = [] \<and> ret = kErrorNoResource else run_ret kErrorOk cs ret"
    and tot: "ret = kErrorOk \<longrightarrow> sum_list (map seg_len cs) = unat length_p"
    unfolding chunkSize_def pChunk_def by blast
  define es where "es = (if pChunk = NULL then [Ev_malloc chunkSize pChunk]
                    else Ev_malloc chunkSize pChunk # map call_event cs @ [Ev_free pChunk])"
  have cs: "chunk_calls es = cs"
    using rr by (simp add: es_def chunk_calls_append chunk_calls_call_events)
  have Cpos: "0 < unat chunkSize"
    using C by (simp add: chunkSize_def unat_gt_0)
  have seg: "1 \<le> seg_len (cs ! i) \<and> seg_len (cs ! i) \<le> unat chunkSize
       \<and> unat (offset (fst (cs ! i))) = sum_list (map seg_len (take i cs))
       \<and> fst (snd (cs ! i)) = take (seg_len (cs ! i)) (drop (unat (offset (fst (cs ! i)))) pImage_p)"
    if "i < length cs" for i
    using calls_from_nth [OF calls Cpos that] by simp
  have ok: "ret = kErrorOk" if "pChunk \<noteq> NULL" "\<forall>c\<in>set cs. snd (snd c) = kErrorOk"
    using rr that run_ret_all_ok [of kErrorOk cs ret] by simp
  have whole: "concat (map (\<lambda>c. fst (snd c)) cs) = pImage_p" if "ret = kErrorOk"
    using calls_from_concat [OF calls] tot that L by simp
  have "writeImageToKernel env h pImage_p length_p = Some (ret, es)"
    using run by (simp add: es_def)
  with seg ok whole show ?thesis
    unfolding cs [symmetric] chunkSize_def [symmetric] pChunk_def [symmetric] by blast
qed

theorem writeImageToKernel_segments_witness:
  "oplk_serviceGetFileChunkSize (env_example 2 always_ok Map.empty) [] \<noteq> 0
   \<and> length [1, 2, 3, 4, 5 :: UINT8] = unat (5 :: UINT)
   \<and> chunk_calls (snd (the (writeImageToKernel (env_example 2 always_ok Map.empty) [] [1, 2, 3, 4, 5] 5)))
       = [(\<lparr>fFirst = True, fLast = False, offset = 0, length_d = 2\<rparr>, [1, 2], kErrorOk),
          (\<lparr>fFirst = False, fLast = False, offset = 2, length_d = 2\<rparr>, [3, 4], kErrorOk),
          (\<lparr>fFirst = False, fLast = True, offset = 4, length_d = 1\<rparr>, [5], kErrorOk)]
   \<and> (\<exists>ret es. writeImageToKernel (env_example 2 always_ok Map.empty) [] [1, 2, 3, 4, 5] 5 = Some (ret, es) \<and>
     (\<forall>i<length (chunk_calls es).
         1 \<le> seg_len (chunk_calls es ! i)
       \<and> seg_len (chunk_calls es ! i) \<le> unat (oplk_serviceGetFileChunkSize (env_example 2 always_ok Map.empty) [])
       \<and> unat (offset (fst (chunk_calls es ! i)))
           = sum_list (map seg_len (take i (chunk_calls es)))
       \<and> fst (snd (chunk_calls es ! i))
           = take (seg_len (chunk_calls es ! i))
               (drop (unat (offset (fst (chunk_calls es ! i)))) [1, 2, 3, 4, 5]))
     \<and> (malloc (env_example 2 always_ok Map.empty) [] (oplk_serviceGetFileChunkSize (env_example 2 always_ok Map.empty) []) \<noteq> NULL
          \<and> (\<forall>c\<in>set (chunk_calls es). snd (snd c) = kErrorOk) \<longrightarrow> ret = kErrorOk)
     \<and> (ret = kErrorOk \<longrightarrow> concat (map (\<lambda>c. fst (snd c)) (chunk_calls es)) = [1, 2, 3, 4, 5]))"
proof -
  have h1: "oplk_serviceGetFileChunkSize (env_example 2 always_ok Map.empty) [] \<noteq> 0"
    by (simp add: env_example_def)
  have h2: "length [1, 2, 3, 4, 5 :: UINT8] = unat (5 :: UINT)"
    by simp
  have run: "chunk_calls (snd (the (writeImageToKernel (env_example 2 always_ok Map.empty) [] [1, 2, 3, 4, 5] 5)))
       = [(\<lparr>fFirst = True, fLast = False, offset = 0, length_d = 2\<rparr>, [1, 2], kErrorOk),
          (\<lparr>fFirst = False, fLast = False, offset = 2, length_d = 2\<rparr>, [3, 4], kErrorOk),
          (\<lparr>fFirst = False, fLast = True, offset = 4, length_d = 1\<rparr>, [5], kErrorOk)]"
    by (simp add: writeImageToKernel_def writeImageToKernel_loop.simps env_example_def
         always_ok_def Let_def NULL_def)
  from h1 h2 run writeImageToKernel_segments [OF h1 h2] show ?thesis by blast
qed

text \<open>
  C3. Whatever the library answers: a chunk-write call that reports a status other than
  \<open>kErrorOk\<close> is the last call of the transfer, and its status is the result of
  \<open>writeImageToKernel\<close>; every call that is followed by another one reported success;
  and the offsets of the calls grow strictly, so no segment is sent twice.
\<close>

theorem writeImageToKernel_abort:
  "\<exists>ret es. writeImageToKernel env h pImage_p length_p = Some (ret, es) \<and>
     (\<forall>i<length (chunk_calls es).
        snd (snd (chunk_calls es ! i)) \<noteq> kErrorOk \<longrightarrow>
          Suc i = length (chunk_calls es) \<and> ret = snd (snd (chunk_calls es ! i)))
     \<and> (\<forall>i. Suc i < length (chunk_calls es) \<longrightarrow> snd (snd (chunk_calls es ! i)) = kErrorOk)
     \<and> sorted_wrt (\<lambda>c c'. unat (offset (fst c)) < unat (offset (fst c'))) (chunk_calls es)"
proof (cases "oplk_serviceGetFileChunkSize env h = 0")
  case True
  then have "writeImageToKernel env h pImage_p length_p = Some (kErrorNoResource, [])"
    by (simp add: writeImageToKernel_def)
  then show ?thesis by simp
next
  case C: False
  define chunkSize where "chunkSize = oplk_serviceGetFileChunkSize env h"
  define pChunk where "pChunk = malloc env h chunkSize"
  from writeImageToKernel_run [OF C, of pImage_p length_p]
  obtain ret cs where
    run: "writeImageToKernel env h pImage_p length_p
       = Some (ret, if pChunk = NULL then [Ev_malloc chunkSize pChunk]
                    else Ev_malloc chunkSize pChunk # map call_event cs @ [Ev_free pChunk])"
    and calls: "calls_from (unat chunkSize) True False 0 (unat length_p) pImage_p cs"
    and rr: "if pChunk = NULL then cs = [] \<and> ret = kErrorNoResource else run_ret kErrorOk cs ret"
    unfolding chunkSize_def pChunk_def by blast
  define es where "es = (if pChunk = NULL then [Ev_malloc chunkSize pChunk]
                    else Ev_malloc chunkSize pChunk # map call_event cs @ [Ev_free pChunk])"
  have cs: "chunk_calls es = cs"
    using rr by (simp add: es_def chunk_calls_append chunk_calls_call_events)
  have Cpos: "0 < unat chunkSize"
    using C by (simp add: chunkSize_def unat_gt_0)
  have stop: "Suc i = length cs \<and> ret = snd (snd (cs ! i))"
    if "i < length cs" "snd (snd (cs ! i)) \<noteq> kErrorOk" for i
  proof (cases "pChunk = NULL")
    case True
    with rr that show ?thesis by simp
  next
    case False
    with rr have "run_ret kErrorOk cs ret" by simp
    from run_ret_nth [OF this that] show ?thesis .
  qed
  have before: "snd (snd (cs ! i)) = kErrorOk" if "Suc i < length cs" for i
    using stop [of i] that by auto
  have incr: "sorted_wrt (\<lambda>c c'. unat (offset (fst c)) < unat (offset (fst c'))) cs"
    using calls_from_offsets_increase [OF calls Cpos] .
  have "writeImageToKernel env h pImage_p length_p = Some (ret, es)"
    using run by (simp add: es_def)
  with stop before incr show ?thesis
    unfolding cs [symmetric] by blast
qed

theorem writeImageToKernel_abort_witness:
  "writeImageToKernel (env_example 2 (fails_at 1 (kErrorOther 5)) Map.empty) [] [1, 2, 3, 4, 5] 5
     = Some (kErrorOther 5,
        [Ev_malloc 2 4096,
         Ev_oplk_serviceWriteFileChunk
           \<lparr>fFirst = True, fLast = False, offset = 0, length_d = 2\<rparr> [1, 2] kErrorOk,
         Ev_oplk_serviceWriteFileChunk
           \<lparr>fFirst = False, fLast = False, offset = 2, length_d = 2\<rparr> [3, 4] (kErrorOther 5),
         Ev_free 4096])
   \<and> (\<exists>ret es. writeImageToKernel (env_example 2 (fails_at 1 (kErrorOther 5)) Map.empty) []
                   [1, 2, 3, 4, 5] 5 = Some (ret, es) \<and>
     (\<forall>i<length (chunk_calls es).
        snd (snd (chunk_calls es ! i)) \<noteq> kErrorOk \<longrightarrow>
          Suc i = length (chunk_calls es) \<and> ret = snd (snd (chunk_calls es ! i)))
     \<and> (\<forall>i. Suc i < length (chunk_calls es) \<longrightarrow> snd (snd (chunk_calls es ! i)) = kErrorOk)
     \<and> sorted_wrt (\<lambda>c c'. unat (offset (fst c)) < unat (offset (fst c'))) (chunk_calls es))"
proof -
  have run: "writeImageToKernel (env_example 2 (fails_at 1 (kErrorOther 5)) Map.empty) [] [1, 2, 3, 4, 5] 5
     = Some (kErrorOther 5,
        [Ev_malloc 2 4096,
         Ev_oplk_serviceWriteFileChunk
           \<lparr>fFirst = True, fLast = False, offset = 0, length_d = 2\<rparr> [1, 2] kErrorOk,
         Ev_oplk_serviceWriteFileChunk
           \<lparr>fFirst = False, fLast = False, offset = 2, length_d = 2\<rparr> [3, 4] (kErrorOther 5),
         Ev_free 4096])"
    by (simp add: writeImageToKernel_def writeImageToKernel_loop.simps env_example_def
         fails_at_def Let_def NULL_def)
  from run writeImageToKernel_abort [of "env_example 2 (fails_at 1 (kErrorOther 5)) Map.empty" "[]"
      "[1, 2, 3, 4, 5]" 5]
  show ?thesis by blast
qed

text \<open>
  C4. With a reported chunk size of zero, \<open>writeImageToKernel\<close> returns
  \<open>kErrorNoResource\<close> at once, for every buffer: it produces no event at all, so no
  chunk-write call (and no allocation).
\<close>

theorem writeImageToKernel_no_chunk_size:
  "oplk_serviceGetFileChunkSize env h = 0 \<Longrightarrow>
     writeImageToKernel env h pImage_p length_p = Some (kErrorNoResource, [])"
  by (simp add: writeImageToKernel_def)

theorem writeImageToKernel_no_chunk_size_witness:
  "oplk_serviceGetFileChunkSize (env_example 0 always_ok Map.empty) [] = 0
   \<and> writeImageToKernel (env_example 0 always_ok Map.empty) [] [1, 2, 3] 3
       = Some (kErrorNoResource, [])"
proof -
  have h: "oplk_serviceGetFileChunkSize (env_example 0 always_ok Map.empty) [] = 0"
    by (simp add: env_example_def)
  from h writeImageToKernel_no_chunk_size [OF h] show ?thesis by simp
qed

text \<open>
  C2. The first call carries \<open>fFirst\<close> and no later call does; \<open>fLast\<close> is set
  only in the branch \<open>length_p < chunkSize\<close>, so a call carries it exactly when its
  segment is shorter than the chunk size (lemma \<open>writeImageToKernel_flags\<close>). A
  buffer whose length is a multiple of the chunk size ends with a full segment, and its
  final call goes out without the flag: with 4 bytes and chunk size 2 both calls succeed,
  the transfer returns \<open>kErrorOk\<close>, and no call has \<open>fLast\<close> set.
\<close>

theorem writeImageToKernel_last_flag_missing:
  "writeImageToKernel (env_example 2 always_ok Map.empty) [] [1, 2, 3, 4] 4
     = Some (kErrorOk,
        [Ev_malloc 2 4096,
         Ev_oplk_serviceWriteFileChunk
           \<lparr>fFirst = True, fLast = False, offset = 0, length_d = 2\<rparr> [1, 2] kErrorOk,
         Ev_oplk_serviceWriteFileChunk
           \<lparr>fFirst = False, fLast = False, offset = 2, length_d = 2\<rparr> [3, 4] kErrorOk,
         Ev_free 4096])"
  by (simp add: writeImageToKernel_def writeImageToKernel_loop.simps env_example_def
        always_ok_def Let_def NULL_def)

section \<open>Claims about the command line and main\<close>




text \<open>
  The other half, by design of \<open>getopt\<close>: the command line \<open>-d\<close> without a file
  name holds no unknown flag, and \<open>main\<close> prints the usage text and returns -1.
\<close>

lemma main_missing_argument:
  "main env 2 (map getopt_returns [Missing_argument CHR ''d''])
     = Some (Returns (- 1, opts_zero), [Ev_usage])
   \<and> filter is_unknown_flag [Missing_argument CHR ''d''] = []"
  by (simp add: main_def getOptions_def)

text \<open>
  C6. Without command-line arguments (\<open>argc = 1\<close>, so \<open>getopt\<close> returns -1 at
  its first call) \<open>getOptions\<close> turns the zeroed options into: file name
  \<open>image.bin\<close> (the array holds it followed by NUL characters), update flag and
  update-reset flag set, invalidate flag and factory-reset flag clear; it returns 0.
\<close>

theorem getOptions_defaults:
  "getOptions 1 [] opts_zero =
     (0, \<lparr>firmwareFile = ''image.bin'' @ replicate 247 NUL, fUpdateImage = True,
          fInvalidateUpdateImage = False, fFactoryReset = False, fUpdateReset = True\<rparr>, [])
   \<and> c_str (firmwareFile (fst (snd (getOptions 1 [] opts_zero)))) = ''image.bin''"
proof -
  have run: "getOptions 1 [] opts_zero =
     (0, \<lparr>firmwareFile = ''image.bin'' @ replicate 247 NUL, fUpdateImage = True,
          fInvalidateUpdateImage = False, fFactoryReset = False, fUpdateReset = True\<rparr>, [])"
    by (simp add: getOptions_def opts_zero_def strncpy_image_bin)
  have "c_str (''image.bin'' @ replicate 247 NUL) = ''image.bin''"
    by (rule c_str_padded) (simp add: NUL_def)
  with run show ?thesis by simp
qed

text \<open>
  C9. For a command line that \<open>getOptions\<close> accepts (it returns 0): the factory-reset
  and update-reset flags are never both set; if the command line has an \<open>f\<close> or
  \<open>u\<close> option, the last of them decides (\<open>f\<close>: factory reset only, \<open>u\<close>:
  update reset only), and without one the factory-reset flag is clear and the update-reset
  flag is the default of the call without arguments; \<open>main\<close> then makes at most one
  reconfiguration call, whose argument is the factory-reset flag, and returns 0, unless
  the run ends before that in the \<open>free\<close> of C8 (an update from a file that opens with
  size 0 while the unassigned \<open>pImage\<close> is not \<open>NULL\<close>).
\<close>

theorem reset_flags_exclusive:
  assumes acc: "fst (getOptions argc g opts_zero) = 0"
  shows "\<not> (fFactoryReset (fst (snd (getOptions argc g opts_zero)))
            \<and> fUpdateReset (fst (snd (getOptions argc g opts_zero))))
     \<and> (case last_reset g of
          Some c \<Rightarrow> fFactoryReset (fst (snd (getOptions argc g opts_zero))) = (c = CHR ''f'')
                  \<and> fUpdateReset (fst (snd (getOptions argc g opts_zero))) = (c = CHR ''u'')
        | None \<Rightarrow> \<not> fFactoryReset (fst (snd (getOptions argc g opts_zero)))
                  \<and> fUpdateReset (fst (snd (getOptions argc g opts_zero))) = (argc = 1))
     \<and> (\<exists>out es. main env argc g = Some (out, es)
           \<and> (out = Returns (0, fst (snd (getOptions argc g opts_zero))) \<or> out = Crashes)
           \<and> (out = Crashes \<longrightarrow>
                 fUpdateImage (fst (snd (getOptions argc g opts_zero)))
                 \<and> pImage_indeterminate env \<noteq> NULL
                 \<and> (\<exists>h pFile.
                       fopen env h
                         (c_str (firmwareFile (fst (snd (getOptions argc g opts_zero)))))
                         = Some pFile
                       \<and> (ucast (ftell_end pFile) :: 32 word) = 0))
           \<and> length (reconfig_calls es) \<le> 1
           \<and> (\<forall>c\<in>set (reconfig_calls es).
                 fst c = fFactoryReset (fst (snd (getOptions argc g opts_zero)))))"
proof -
  define start where "start = (if argc = 1
        then opts_zero\<lparr>firmwareFile := strncpy ''image.bin'' 256,
                   fUpdateImage := True, fUpdateReset := True\<rparr>
        else opts_zero)"
  have go: "getOptions argc g opts_zero = getOptions_loop g start"
    by (simp add: getOptions_def start_def)
  have known: "\<not> (\<exists>r\<in>set g. default_case r)"
    using acc by (simp add: getOptions_ret split: if_splits)
  have s: "\<not> fFactoryReset start" "fUpdateReset start = (argc = 1)"
    by (simp_all add: start_def opts_zero_def)
  have excl: "\<not> (fFactoryReset (fst (snd (getOptions argc g opts_zero)))
            \<and> fUpdateReset (fst (snd (getOptions argc g opts_zero))))"
    unfolding go using s by (intro getOptions_loop_exclusive) simp
  have last: "case last_reset g of
          Some c \<Rightarrow> fFactoryReset (fst (snd (getOptions argc g opts_zero))) = (c = CHR ''f'')
                  \<and> fUpdateReset (fst (snd (getOptions argc g opts_zero))) = (c = CHR ''u'')
        | None \<Rightarrow> \<not> fFactoryReset (fst (snd (getOptions argc g opts_zero)))
                  \<and> fUpdateReset (fst (snd (getOptions argc g opts_zero))) = (argc = 1)"
    unfolding go using getOptions_loop_last_reset [OF known, of start] s
    by (simp split: option.splits)
  obtain out es where run: "main env argc g = Some (out, es)"
    using main_Some [of env argc g] by (cases "main env argc g") auto
  have ret: "out = Returns (0, fst (snd (getOptions argc g opts_zero))) \<or> out = Crashes"
    using main_result(2) [OF run] acc by simp
  note crash = main_result(5) [OF run]
  note one = main_result(3) [OF run]
  note arg = main_result(4) [OF run]
  from run ret crash one arg
  have "\<exists>out es. main env argc g = Some (out, es)
           \<and> (out = Returns (0, fst (snd (getOptions argc g opts_zero))) \<or> out = Crashes)
           \<and> (out = Crashes \<longrightarrow>
                 fUpdateImage (fst (snd (getOptions argc g opts_zero)))
                 \<and> pImage_indeterminate env \<noteq> NULL
                 \<and> (\<exists>h pFile.
                       fopen env h
                         (c_str (firmwareFile (fst (snd (getOptions argc g opts_zero)))))
                         = Some pFile
                       \<and> (ucast (ftell_end pFile) :: 32 word) = 0))
           \<and> length (reconfig_calls es) \<le> 1
           \<and> (\<forall>c\<in>set (reconfig_calls es).
                 fst c = fFactoryReset (fst (snd (getOptions argc g opts_zero))))"
    by blast
  with excl last show ?thesis by blast
qed

theorem reset_flags_exclusive_witness:
  "fst (getOptions 3 [(CHR ''u'', ''''), (CHR ''f'', '''')] opts_zero) = 0
   \<and> last_reset [(CHR ''u'', ''''), (CHR ''f'', '''')] = Some CHR ''f''
   \<and> fFactoryReset (fst (snd (getOptions 3 [(CHR ''u'', ''''), (CHR ''f'', '''')] opts_zero)))
   \<and> \<not> fUpdateReset (fst (snd (getOptions 3 [(CHR ''u'', ''''), (CHR ''f'', '''')] opts_zero)))
   \<and> (\<exists>es. main (env_example 2 always_ok Map.empty) 3 [(CHR ''u'', ''''), (CHR ''f'', '''')]
              = Some (Returns (0, fst (snd (getOptions 3 [(CHR ''u'', ''''), (CHR ''f'', '''')]
                                              opts_zero))), es)
           \<and> length (reconfig_calls es) \<le> 1
           \<and> (\<forall>c\<in>set (reconfig_calls es). fst c = True))
   \<and> reconfig_calls (snd (the (main (env_example 2 always_ok Map.empty) 3
                                   [(CHR ''u'', ''''), (CHR ''f'', '''')])))
       = [(True, kErrorOk)]"
proof -
  have acc: "fst (getOptions 3 [(CHR ''u'', ''''), (CHR ''f'', '''')] opts_zero) = 0"
    by (simp add: getOptions_def)
  have l: "last_reset [(CHR ''u'', ''''), (CHR ''f'', '''')] = Some CHR ''f''"
    by simp
  have nu: "\<not> fUpdateImage (fst (snd (getOptions 3 [(CHR ''u'', ''''), (CHR ''f'', '''')] opts_zero)))"
    by (simp add: getOptions_def opts_zero_def)
  have run: "reconfig_calls (snd (the (main (env_example 2 always_ok Map.empty) 3
                                   [(CHR ''u'', ''''), (CHR ''f'', '''')])))
       = [(True, kErrorOk)]"
    by (simp add: main_def getOptions_def opts_zero_def env_example_def main_Exit_def
          main_oplk_exit_Exit_def)
  from reset_flags_exclusive [OF acc, of "env_example 2 always_ok Map.empty"] acc l nu run
  show ?thesis by auto
qed

section \<open>Claims about files and buffers\<close>

text \<open>
  C8. The exit path of \<open>updateImage\<close> for an empty file: the file is opened,
  \<open>fileSize\<close> is 0 and the function jumps to \<open>Exit\<close> before \<open>pImage\<close> has
  been assigned; \<open>Exit\<close> tests and frees that pointer. With the indeterminate value
  7: \<open>free\<close> is called on a pointer that \<open>malloc\<close> never returned, the run ends
  there, and the file that was opened is never closed. On every other path the call
  returns and its events are a correct release of what it acquired (lemmas
  \<open>updateImage_Crashes\<close> and \<open>updateImage_released\<close>; lemma
  \<open>writeImageToKernel_released\<close> for the chunk buffer).
\<close>

theorem updateImage_empty_file_exit:
  "updateImage (env_example 2 always_ok (one_file ''image.bin'' [])) [] ''image.bin''
     = Some (Crashes, [Ev_fopen ''image.bin'' True, Ev_free 7])
   \<and> \<not> released [] [] [Ev_fopen ''image.bin'' True, Ev_free 7]"
  by (simp add: updateImage_def updateImage_Exit_def env_example_def one_file_def NULL_def)

text \<open>
  \<open>invalidateImage\<close> is the transfer of its 32-byte buffer of 0xFF: every byte of
  every chunk-write call it makes is 0xFF, and when it returns \<open>kErrorOk\<close> the calls
  have delivered exactly those 32 bytes.
\<close>

lemma invalidateImage_transfer:
  "invalidateImage env h = writeImageToKernel env h (replicate 32 0xFF) 32
   \<and> (\<exists>ret es. invalidateImage env h = Some (ret, es)
        \<and> (\<forall>c\<in>set (chunk_calls es). \<forall>x\<in>set (fst (snd c)). x = 0xFF)
        \<and> (ret = kErrorOk \<longrightarrow>
              concat (map (\<lambda>c. fst (snd c)) (chunk_calls es)) = replicate 32 0xFF))"
proof -
  have b: "invalidateImage env h = writeImageToKernel env h (replicate 32 0xFF) 32"
    by (simp add: invalidateImage_def FIRMWARE_HEADER_SIZE_def)
  from writeImageToKernel_delivers [of env h "replicate 32 0xFF" 32]
  obtain ret es where run: "writeImageToKernel env h (replicate 32 0xFF) 32 = Some (ret, es)"
    and sub: "\<forall>c\<in>set (chunk_calls es). set (fst (snd c)) \<subseteq> set (replicate 32 (0xFF :: UINT8))"
    and whole: "ret = kErrorOk \<longrightarrow>
           concat (map (\<lambda>c. fst (snd c)) (chunk_calls es))
             = take (unat (32 :: UINT)) (replicate 32 0xFF)"
    by blast
  have "set (replicate 32 (0xFF :: UINT8)) \<subseteq> {0xFF}"
    by auto
  with sub have bytes: "\<forall>c\<in>set (chunk_calls es). \<forall>x\<in>set (fst (snd c)). x = 0xFF"
    by blast
  have "take (unat (32 :: UINT)) (replicate 32 (0xFF :: UINT8)) = replicate 32 0xFF"
    unfolding unat_32 by (rule take_all) simp
  with whole have whole': "ret = kErrorOk \<longrightarrow>
           concat (map (\<lambda>c. fst (snd c)) (chunk_calls es)) = replicate 32 0xFF"
    by simp
  from run bytes whole' have c: "\<exists>ret es. invalidateImage env h = Some (ret, es)
        \<and> (\<forall>c\<in>set (chunk_calls es). \<forall>x\<in>set (fst (snd c)). x = 0xFF)
        \<and> (ret = kErrorOk \<longrightarrow>
              concat (map (\<lambda>c. fst (snd c)) (chunk_calls es)) = replicate 32 0xFF)"
    unfolding b by blast
  from b c show ?thesis by blast
qed

text \<open>
  C10. \<open>updateImage\<close> tests for the empty file, sets \<open>ret = kErrorNoResource\<close> and
  jumps to \<open>Exit\<close> without any chunk-write call, but it does not get to
  \<open>return ret\<close>: \<open>Exit\<close> frees the unassigned \<open>pImage\<close> (the defect of C8), here
  the value 7, and the run ends in that call. It returns \<open>kErrorNoResource\<close> only if
  that value happens to be \<open>NULL\<close> (lemma \<open>updateImage_empty_file\<close>).
  \<open>invalidateImage\<close>, in the same environment with chunk size 64, sends its 32 bytes
  of 0xFF in one chunk-write call (lemma \<open>invalidateImage_transfer\<close> for every
  environment).
\<close>

theorem updateImage_empty_file_no_return:
  "updateImage (env_example 64 always_ok (one_file ''fw.bin'' [])) [] ''fw.bin''
     = Some (Crashes, [Ev_fopen ''fw.bin'' True, Ev_free 7])
   \<and> invalidateImage (env_example 64 always_ok (one_file ''fw.bin'' [])) []
     = Some (kErrorOk,
        [Ev_malloc 64 4096,
         Ev_oplk_serviceWriteFileChunk
           \<lparr>fFirst = True, fLast = True, offset = 0, length_d = 32\<rparr>
           (replicate 32 0xFF) kErrorOk,
         Ev_free 4096])"
proof -
  have u: "updateImage (env_example 64 always_ok (one_file ''fw.bin'' [])) [] ''fw.bin''
     = Some (Crashes, [Ev_fopen ''fw.bin'' True, Ev_free 7])"
    by (simp add: updateImage_def updateImage_Exit_def env_example_def one_file_def NULL_def)
  have len: "length (replicate 32 (0xFF :: UINT8)) = 32"
    by simp
  have i: "invalidateImage (env_example 64 always_ok (one_file ''fw.bin'' [])) []
     = Some (kErrorOk,
        [Ev_malloc 64 4096,
         Ev_oplk_serviceWriteFileChunk
           \<lparr>fFirst = True, fLast = True, offset = 0, length_d = 32\<rparr>
           (replicate 32 0xFF) kErrorOk,
         Ev_free 4096])"
    by (simp add: invalidateImage_def FIRMWARE_HEADER_SIZE_def writeImageToKernel_def
          writeImageToKernel_loop.simps env_example_def always_ok_def Let_def NULL_def)
  from u i show ?thesis by simp
qed

end
